theory Spec2Isabelle
  imports Main
begin

section \<open>Python objects, the object heap and the interpreter state\<close>

text \<open>
  \<^verbatim>\<open>scannermodule.c\<close> is a CPython 2 extension module (it is initialised through
  \<^verbatim>\<open>Py_InitModule\<close> by a function named \<^verbatim>\<open>initc_comment_scanner\<close>). Its one function,
  \<^verbatim>\<open>scanner_get_comments\<close>, is straight-line code over four routines declared elsewhere:
  \<^verbatim>\<open>PyArg_ParseTuple\<close>, \<^verbatim>\<open>PyList_New\<close> and \<^verbatim>\<open>Py_INCREF\<close> of the CPython C API, modelled
  below after their documented behaviour, and \<^verbatim>\<open>scan_filename\<close> of \<^verbatim>\<open>scanner.h\<close>, which is
  taken as a parameter.

  Python values: \<open>PyStr\<close> is the Python 2 byte string (\<open>str\<close>), \<open>PyUnicode\<close> a sequence of
  code points. Items of tuples and lists are held by value.
\<close>

datatype pyval =
    PyNone
  | PyInt int
  | PyStr string
  | PyUnicode "nat list"
  | PyTuple "pyval list"
  | PyList "pyval list"

text \<open>
  An object is a reference count and a value. A \<^verbatim>\<open>PyObject *\<close> is an address or \<^verbatim>\<open>NULL\<close>
  (\<open>None\<close>). The heap is indexed by address; a freed or never used cell is \<open>None\<close>.
\<close>

type_synonym addr = nat

type_synonym PyObject_ptr = "addr option"

record PyObject =
  ob_refcnt :: nat
  ob_val :: pyval

type_synonym pyheap = "PyObject option list"

text \<open>
  The state: the object heap, the number of addresses the allocator may hand out
  (allocation fails when no address below \<open>mem_limit\<close> is free), and \<open>world\<close>, everything
  that only the scanning routine reads and writes (the file system, the lexer's globals).
\<close>

record 'w pystate =
  heap :: pyheap
  mem_limit :: nat
  world :: 'w

definition deref :: "pyheap \<Rightarrow> addr \<Rightarrow> PyObject option" where
  "deref h a = (if a < length h then h ! a else None)"

definition store :: "pyheap \<Rightarrow> addr \<Rightarrow> PyObject \<Rightarrow> pyheap" where
  "store h a ob =
     (if a < length h then h[a := Some ob]
      else h @ replicate (a - length h) None @ [Some ob])"

text \<open>The allocator hands out the lowest free address: a freed cell is used again.\<close>

fun first_free :: "pyheap \<Rightarrow> addr" where
  "first_free [] = 0"
| "first_free (None # h) = 0"
| "first_free (Some ob # h) = Suc (first_free h)"

text \<open>The exceptions that the argument parser raises.\<close>

datatype pyexc = TypeError | SystemError | UnicodeEncodeError

text \<open>
  What C leaves undefined, and what the model cannot look into: a \<^verbatim>\<open>NULL\<close> pointer is
  dereferenced, a pointer to a freed object is dereferenced, the scanning routine does not
  return.
\<close>

datatype fault = NullDereference | DanglingPointer | ScanNoReturn

text \<open>
  The result of a \<^verbatim>\<open>PyCFunction\<close>: a pointer is returned (\<open>Returned\<close>), or \<^verbatim>\<open>NULL\<close> is
  returned with an exception set (\<open>Raised\<close>), or the call does not come back (\<open>Aborted\<close>).
\<close>

datatype 'w outcome =
    Returned PyObject_ptr "'w pystate"
  | Raised pyexc "'w pystate"
  | Aborted fault

section \<open>The C API routines the adapter calls\<close>

subsection \<open>\<^verbatim>\<open>PyArg_ParseTuple (args, "s", &filename)\<close>\<close>

text \<open>
  The format \<^verbatim>\<open>"s"\<close> takes exactly one argument, a \<open>str\<close> or a \<open>unicode\<close> object, and
  stores a pointer to a NUL-terminated C string. A \<open>unicode\<close> object is converted with the
  default encoding, which is ASCII; when that fails the \<^verbatim>\<open>UnicodeEncodeError\<close> stands. A
  string with an embedded NUL byte is refused with a \<^verbatim>\<open>TypeError\<close>
  (\<^verbatim>\<open>strlen(*p) != PyString_Size(arg)\<close>), and so is an object of any other type. A wrong
  number of arguments is a \<^verbatim>\<open>TypeError\<close>, an \<open>args\<close> that is no tuple a \<^verbatim>\<open>SystemError\<close>.
  (With \<^verbatim>\<open>METH_VARARGS\<close> the interpreter always passes a tuple. The bytes of a converted
  \<open>unicode\<close> object are kept in a cache inside that object, which the model does not
  show.)
\<close>

definition default_encoding :: "nat list \<Rightarrow> string option" where
  "default_encoding cps =
     (if list_all (\<lambda>c. c < 128) cps then Some (map char_of cps) else None)"

definition strlen :: "string \<Rightarrow> nat" where
  "strlen p = length (takeWhile (\<lambda>c. c \<noteq> CHR 0x00) p)"

fun string_buffer :: "pyval \<Rightarrow> pyexc + string" where
  "string_buffer (PyStr bs) = Inr bs"
| "string_buffer (PyUnicode cps) =
     (case default_encoding cps of
        None \<Rightarrow> Inl UnicodeEncodeError
      | Some bs \<Rightarrow> Inr bs)"
| "string_buffer PyNone = Inl TypeError"
| "string_buffer (PyInt i) = Inl TypeError"
| "string_buffer (PyTuple xs) = Inl TypeError"
| "string_buffer (PyList xs) = Inl TypeError"

definition convert_s :: "pyval \<Rightarrow> pyexc + string" where
  "convert_s arg =
     (case string_buffer arg of
        Inl e \<Rightarrow> Inl e
      | Inr p \<Rightarrow> if strlen p \<noteq> length p then Inl TypeError else Inr p)"

definition PyArg_ParseTuple_s :: "PyObject_ptr \<Rightarrow> 'w pystate \<Rightarrow> fault + pyexc + string" where
  "PyArg_ParseTuple_s args s =
     (case args of
        None \<Rightarrow> Inl NullDereference
      | Some a \<Rightarrow>
          (case deref (heap s) a of
             None \<Rightarrow> Inl DanglingPointer
           | Some ob \<Rightarrow>
               (case ob_val ob of
                  PyTuple items \<Rightarrow>
                    (case items of
                       [arg] \<Rightarrow> Inr (convert_s arg)
                     | _ \<Rightarrow> Inr (Inl TypeError))
                | _ \<Rightarrow> Inr (Inl SystemError))))"

subsection \<open>\<^verbatim>\<open>PyList_New\<close> and \<^verbatim>\<open>Py_INCREF\<close>\<close>

text \<open>
  \<^verbatim>\<open>PyList_New (len)\<close> returns a new reference to a new list, or \<^verbatim>\<open>NULL\<close> when \<open>len\<close> is
  negative or no memory is left. (The slots of a list of positive size are \<^verbatim>\<open>NULL\<close> in
  CPython until they are set; the adapter only asks for size 0.)
\<close>

definition PyList_New :: "int \<Rightarrow> 'w pystate \<Rightarrow> PyObject_ptr \<times> 'w pystate" where
  "PyList_New len s =
     (if len < 0 then (None, s)
      else
        let a = first_free (heap s) in
        if a < mem_limit s
        then (Some a,
              s\<lparr>heap := store (heap s) a
                   \<lparr>ob_refcnt = 1, ob_val = PyList (replicate (nat len) PyNone)\<rparr>\<rparr>)
        else (None, s))"

text \<open>\<^verbatim>\<open>Py_INCREF (op)\<close> is the macro \<^verbatim>\<open>(op)->ob_refcnt++\<close>: it checks nothing.\<close>

definition Py_INCREF :: "PyObject_ptr \<Rightarrow> 'w pystate \<Rightarrow> fault + 'w pystate" where
  "Py_INCREF op s =
     (case op of
        None \<Rightarrow> Inl NullDereference
      | Some a \<Rightarrow>
          (case deref (heap s) a of
             None \<Rightarrow> Inl DanglingPointer
           | Some ob \<Rightarrow>
               Inr (s\<lparr>heap := store (heap s) a (ob\<lparr>ob_refcnt := ob_refcnt ob + 1\<rparr>)\<rparr>)))"

section \<open>The adapter\<close>

text \<open>
  \<^verbatim>\<open>scan_filename (filename, list)\<close> is declared in \<^verbatim>\<open>scanner.h\<close> and defined outside this
  file: a parameter of the model. It takes the C string and the list pointer, may change
  any part of the state, and either returns (its return value is not looked at) or not.
\<close>

type_synonym 'w scanner = "string \<Rightarrow> PyObject_ptr \<Rightarrow> 'w pystate \<Rightarrow> 'w pystate option"

text \<open>
  \<^verbatim>\<open>
  static PyObject *
  scanner_get_comments (PyObject *self, PyObject *args)
  {
    const char *filename;
    PyObject *list;

    if (!PyArg_ParseTuple(args, "s", &filename))
      return NULL;

    list = PyList_New (0);
    scan_filename (filename, list);

    Py_INCREF (list);
    return list;
  }
  \<close>
\<close>

definition scanner_get_comments ::
  "'w scanner \<Rightarrow> PyObject_ptr \<Rightarrow> PyObject_ptr \<Rightarrow> 'w pystate \<Rightarrow> 'w outcome" where
  "scanner_get_comments scan_filename self args s =
     (case PyArg_ParseTuple_s args s of
        Inl f \<Rightarrow> Aborted f
      | Inr (Inl e) \<Rightarrow> Raised e s
      | Inr (Inr filename) \<Rightarrow>
          (case PyList_New 0 s of
             (list, s1) \<Rightarrow>
               (case scan_filename filename list s1 of
                  None \<Rightarrow> Aborted ScanNoReturn
                | Some s2 \<Rightarrow>
                    (case Py_INCREF list s2 of
                       Inl f \<Rightarrow> Aborted f
                     | Inr s3 \<Rightarrow> Returned list s3))))"

section \<open>The method table and the module initialisation\<close>

text \<open>
  \<^verbatim>\<open>
  static PyMethodDef ScannerMethods[] = {
    {"get_comments",  scanner_get_comments, METH_VARARGS, "Get comments from a filename."},
    {NULL, NULL, 0, NULL}
  };

  PyMODINIT_FUNC
  initc_comment_scanner(void)
  {
    (void) Py_InitModule("c_comment_scanner", ScannerMethods);
  }
  \<close>
\<close>

record 'f PyMethodDef =
  ml_name :: "string option"
  ml_meth :: "'f option"
  ml_flags :: int
  ml_doc :: "string option"

definition METH_VARARGS :: int where
  "METH_VARARGS = 1"

type_synonym 'w PyCFunction = "PyObject_ptr \<Rightarrow> PyObject_ptr \<Rightarrow> 'w pystate \<Rightarrow> 'w outcome"

definition ScannerMethods :: "'w scanner \<Rightarrow> 'w PyCFunction PyMethodDef list" where
  "ScannerMethods scan_filename =
     [\<lparr>ml_name = Some ''get_comments'',
       ml_meth = Some (scanner_get_comments scan_filename),
       ml_flags = METH_VARARGS,
       ml_doc = Some ''Get comments from a filename.''\<rparr>,
      \<lparr>ml_name = None, ml_meth = None, ml_flags = 0, ml_doc = None\<rparr>]"

text \<open>
  A module is its name and its dictionary. An entry of the dictionary is a built-in
  function made from a row of a method table, or a plain value.
\<close>

datatype 'f attr = Builtin "'f PyMethodDef" | Data pyval

record 'f pymodule =
  md_name :: string
  md_dict :: "(string \<times> 'f attr) list"

fun PyDict_SetItemString ::
  "(string \<times> 'f attr) list \<Rightarrow> string \<Rightarrow> 'f attr \<Rightarrow> (string \<times> 'f attr) list" where
  "PyDict_SetItemString [] k v = [(k, v)]"
| "PyDict_SetItemString ((k', v') # d) k v =
     (if k' = k then (k, v) # d else (k', v') # PyDict_SetItemString d k v)"

text \<open>
  \<^verbatim>\<open>Py_InitModule\<close> creates the module, whose dictionary holds \<^verbatim>\<open>__name__\<close>,
  \<^verbatim>\<open>__doc__\<close> and \<^verbatim>\<open>__package__\<close>, walks the table up to the row whose \<^verbatim>\<open>ml_name\<close> is
  \<^verbatim>\<open>NULL\<close>, and enters each row before it into the dictionary under its name.
\<close>

fun add_methods ::
  "'f PyMethodDef list \<Rightarrow> (string \<times> 'f attr) list \<Rightarrow> (string \<times> 'f attr) list" where
  "add_methods [] d = d"
| "add_methods (ml # mls) d =
     (case ml_name ml of
        None \<Rightarrow> d
      | Some n \<Rightarrow> add_methods mls (PyDict_SetItemString d n (Builtin ml)))"

definition Py_InitModule :: "string \<Rightarrow> 'f PyMethodDef list \<Rightarrow> 'f pymodule" where
  "Py_InitModule name methods =
     \<lparr>md_name = name,
      md_dict = add_methods methods
                  [(''__name__'', Data (PyStr name)), (''__doc__'', Data PyNone),
                   (''__package__'', Data PyNone)]\<rparr>"

definition initc_comment_scanner :: "'w scanner \<Rightarrow> 'w PyCFunction pymodule" where
  "initc_comment_scanner scan_filename =
     Py_InitModule ''c_comment_scanner'' (ScannerMethods scan_filename)"

text \<open>The names under which a module offers something to call.\<close>

fun callables :: "(string \<times> 'f attr) list \<Rightarrow> string list" where
  "callables [] = []"
| "callables ((k, Builtin ml) # d) = k # callables d"
| "callables ((k, Data v) # d) = callables d"

section \<open>Vocabulary of the properties\<close>

text \<open>
  The items of the tuple \<open>args\<close> points to, and the items of the list a pointer points to:
  \<open>None\<close> when the pointer is \<^verbatim>\<open>NULL\<close>, dangling, or points to another kind of object.
\<close>

definition args_of :: "PyObject_ptr \<Rightarrow> 'w pystate \<Rightarrow> pyval list option" where
  "args_of args s =
     (case args of
        None \<Rightarrow> None
      | Some a \<Rightarrow>
          (case deref (heap s) a of
             None \<Rightarrow> None
           | Some ob \<Rightarrow> (case ob_val ob of PyTuple items \<Rightarrow> Some items | _ \<Rightarrow> None)))"

definition list_at :: "'w pystate \<Rightarrow> PyObject_ptr \<Rightarrow> pyval list option" where
  "list_at s p =
     (case p of
        None \<Rightarrow> None
      | Some a \<Rightarrow>
          (case deref (heap s) a of
             None \<Rightarrow> None
           | Some ob \<Rightarrow> (case ob_val ob of PyList xs \<Rightarrow> Some xs | _ \<Rightarrow> None)))"

definition refcnt_at :: "'w pystate \<Rightarrow> PyObject_ptr \<Rightarrow> nat option" where
  "refcnt_at s p =
     (case p of
        None \<Rightarrow> None
      | Some a \<Rightarrow> map_option ob_refcnt (deref (heap s) a))"

text \<open>A Python string is a \<open>str\<close> or a \<open>unicode\<close>; a call has one string argument.\<close>

fun is_string :: "pyval \<Rightarrow> bool" where
  "is_string (PyStr bs) = True"
| "is_string (PyUnicode cps) = True"
| "is_string PyNone = False"
| "is_string (PyInt i) = False"
| "is_string (PyTuple xs) = False"
| "is_string (PyList xs) = False"

fun one_string :: "pyval list \<Rightarrow> bool" where
  "one_string [arg] = is_string arg"
| "one_string [] = False"
| "one_string (x # y # ys) = False"

text \<open>
  The strings that have a C string: a \<open>str\<close> without a NUL byte, a \<open>unicode\<close> of ASCII
  code points other than NUL.
\<close>

fun c_string :: "pyval \<Rightarrow> bool" where
  "c_string (PyStr bs) = (CHR 0x00 \<notin> set bs)"
| "c_string (PyUnicode cps) = list_all (\<lambda>c. 0 < c \<and> c < 128) cps"
| "c_string PyNone = False"
| "c_string (PyInt i) = False"
| "c_string (PyTuple xs) = False"
| "c_string (PyList xs) = False"

text \<open>The C string \<open>p\<close> has the text of the Python string: the same bytes, the same code points.\<close>

fun same_text :: "pyval \<Rightarrow> string \<Rightarrow> bool" where
  "same_text (PyStr bs) p = (p = bs)"
| "same_text (PyUnicode cps) p = (map of_char p = cps)"
| "same_text PyNone p = False"
| "same_text (PyInt i) p = False"
| "same_text (PyTuple xs) p = False"
| "same_text (PyList xs) p = False"

text \<open>
  Two states are alike except at the addresses \<open>A\<close>: every other cell of the heap, the
  memory limit and the scanning routine's world are the same.
\<close>

definition alike_except :: "addr set \<Rightarrow> 'w pystate \<Rightarrow> 'w pystate \<Rightarrow> bool" where
  "alike_except A s t =
     (mem_limit t = mem_limit s \<and> world t = world s \<and>
      (\<forall>a. a \<notin> A \<longrightarrow> deref (heap t) a = deref (heap s) a))"

text \<open>
  The state \<open>t\<close> is the state \<open>s\<close> with nothing changed but a new, empty list with one
  reference at \<open>p\<close>, where \<open>s\<close> has no object (with nothing changed at all when \<open>p\<close> is
  \<^verbatim>\<open>NULL\<close>).
\<close>

definition fresh_list_only :: "'w pystate \<Rightarrow> PyObject_ptr \<Rightarrow> 'w pystate \<Rightarrow> bool" where
  "fresh_list_only s p t =
     (case p of
        None \<Rightarrow> t = s
      | Some l \<Rightarrow>
          deref (heap s) l = None \<and>
          deref (heap t) l = Some \<lparr>ob_refcnt = 1, ob_val = PyList []\<rparr> \<and>
          alike_except {l} s t)"

subsection \<open>Scanning routines and states for the examples\<close>

text \<open>
  A scanning routine that is a function \<open>f\<close> from the file name and the list it is given to
  the list it leaves; it does not come back from a pointer that is no list.
\<close>

definition scan_by :: "(string \<Rightarrow> pyval list \<Rightarrow> pyval list) \<Rightarrow> 'w scanner" where
  "scan_by f filename list s =
     (case list of
        None \<Rightarrow> None
      | Some a \<Rightarrow>
          (case deref (heap s) a of
             None \<Rightarrow> None
           | Some ob \<Rightarrow>
               (case ob_val ob of
                  PyList xs \<Rightarrow>
                    Some (s\<lparr>heap := store (heap s) a (ob\<lparr>ob_val := PyList (f filename xs)\<rparr>)\<rparr>)
                | _ \<Rightarrow> None)))"

text \<open>
  A scanning routine that only writes down, in its world, the arguments it was called with.
\<close>

definition scan_log :: "(string \<times> PyObject_ptr) list scanner" where
  "scan_log filename list s = Some (s\<lparr>world := world s @ [(filename, list)]\<rparr>)"

text \<open>
  Four more: a routine that finds nothing and returns at once, one that never returns, one
  that returns unless it is handed \<^verbatim>\<open>NULL\<close>, and one that frees every object, the list
  among them.
\<close>

definition scan_nothing :: "'w scanner" where
  "scan_nothing filename list s = Some s"

definition scan_never :: "'w scanner" where
  "scan_never filename list s = None"

definition scan_unless_NULL :: "'w scanner" where
  "scan_unless_NULL filename list s = (if list = None then None else Some s)"

definition scan_frees :: "'w scanner" where
  "scan_frees filename list s = Some (s\<lparr>heap := []\<rparr>)"

text \<open>
  The state of a call from Python: the interpreter has built the argument tuple, here at
  address 0, and holds the one reference to it.
\<close>

definition calling :: "pyval list \<Rightarrow> nat \<Rightarrow> 'w \<Rightarrow> 'w pystate" where
  "calling items limit w =
     \<lparr>heap = [Some \<lparr>ob_refcnt = 1, ob_val = PyTuple items\<rparr>], mem_limit = limit, world = w\<rparr>"

text \<open>A scanning routine for the examples: it finds one comment, which names the file.\<close>

definition one_comment :: "string \<Rightarrow> pyval list \<Rightarrow> pyval list" where
  "one_comment filename xs = xs @ [PyStr (''/* '' @ filename @ '' */'')]"

section \<open>Facts about the heap, the argument parser and the paths of the adapter\<close>

subsection \<open>The heap and the allocator\<close>

lemma deref_first_free: "deref h (first_free h) = None"
  by (induction h rule: first_free.induct) (auto simp: deref_def)

lemma deref_store_same: "deref (store h a ob) a = Some ob"
  by (auto simp: deref_def store_def nth_append)

lemma deref_store_other: "b \<noteq> a \<Longrightarrow> deref (store h a ob) b = deref h b"
  by (auto simp: deref_def store_def nth_append)

lemma alike_except_store: "alike_except {l} s (s\<lparr>heap := store (heap s) l ob\<rparr>)"
  by (simp add: alike_except_def deref_store_other)

lemma PyList_New_0:
  "PyList_New 0 s =
     (if first_free (heap s) < mem_limit s
      then (Some (first_free (heap s)),
            s\<lparr>heap := store (heap s) (first_free (heap s))
                 \<lparr>ob_refcnt = 1, ob_val = PyList []\<rparr>\<rparr>)
      else (None, s))"
  by (simp add: PyList_New_def Let_def)

lemma PyList_New_None: "PyList_New 0 s = (None, s1) \<Longrightarrow> s1 = s"
  by (simp add: PyList_New_0 split: if_splits)

lemma PyList_New_Some:
  assumes "PyList_New 0 s = (Some l, s1)"
  shows "deref (heap s) l = None"
    and "deref (heap s1) l = Some \<lparr>ob_refcnt = 1, ob_val = PyList []\<rparr>"
    and "alike_except {l} s s1"
    and "l < mem_limit s"
  using assms
  by (auto simp: PyList_New_0 deref_first_free deref_store_same deref_store_other
        alike_except_def split: if_splits)

lemma fresh_list_only_PyList_New:
  assumes "PyList_New 0 s = (p, s1)"
  shows "fresh_list_only s p s1"
proof (cases p)
  case None
  with assms show ?thesis
    by (simp add: fresh_list_only_def PyList_New_None)
next
  case (Some l)
  with assms show ?thesis
    by (simp add: fresh_list_only_def PyList_New_Some)
qed

lemma Py_INCREF_live:
  "deref (heap s) l = Some ob \<Longrightarrow>
   Py_INCREF (Some l) s =
     Inr (s\<lparr>heap := store (heap s) l (ob\<lparr>ob_refcnt := ob_refcnt ob + 1\<rparr>)\<rparr>)"
  by (simp add: Py_INCREF_def)

lemma list_at_store:
  "list_at (s\<lparr>heap := store (heap s) l (ob\<lparr>ob_refcnt := r\<rparr>)\<rparr>) (Some l) =
     (case ob_val ob of PyList xs \<Rightarrow> Some xs | _ \<Rightarrow> None)"
  by (simp add: list_at_def deref_store_same)

lemma list_at_Some:
  "list_at s (Some l) = Some xs \<Longrightarrow> \<exists>ob. deref (heap s) l = Some ob \<and> ob_val ob = PyList xs"
  by (auto simp: list_at_def split: option.splits pyval.splits)

lemma refcnt_at_store:
  "refcnt_at (s\<lparr>heap := store (heap s) l ob\<rparr>) (Some l) = Some (ob_refcnt ob)"
  by (simp add: refcnt_at_def deref_store_same)

lemma args_of_store_same_val:
  assumes "deref (heap s) l = Some ob" and "ob_val ob' = ob_val ob"
  shows "args_of args (s\<lparr>heap := store (heap s) l ob'\<rparr>) = args_of args s"
proof (cases args)
  case None
  then show ?thesis by (simp add: args_of_def)
next
  case (Some a)
  show ?thesis
  proof (cases "a = l")
    case True
    with Some assms show ?thesis
      by (simp add: args_of_def deref_store_same)
  next
    case False
    with Some show ?thesis
      by (simp add: args_of_def deref_store_other)
  qed
qed

lemma args_of_store_new_list:
  assumes "deref (heap s) l = None"
  shows "args_of args (s\<lparr>heap := store (heap s) l \<lparr>ob_refcnt = r, ob_val = PyList xs\<rparr>\<rparr>)
           = args_of args s"
proof (cases args)
  case None
  then show ?thesis by (simp add: args_of_def)
next
  case (Some a)
  show ?thesis
  proof (cases "a = l")
    case True
    with Some assms show ?thesis
      by (simp add: args_of_def deref_store_same)
  next
    case False
    with Some show ?thesis
      by (simp add: args_of_def deref_store_other)
  qed
qed

lemma args_of_PyList_New: "args_of args (snd (PyList_New 0 s)) = args_of args s"
  by (simp add: PyList_New_0 args_of_store_new_list deref_first_free)

subsection \<open>The argument parser\<close>

text \<open>
  The format \<^verbatim>\<open>"s"\<close> yields the C string \<open>p\<close> exactly for the strings that have one, and
  \<open>p\<close> then has the text of the string (\<open>convert_s_iff\<close>).
\<close>

lemma strlen_eq: "(strlen p = length p) = (CHR 0x00 \<notin> set p)"
  unfolding strlen_def by (induction p) auto

lemma char_of_NUL: "(n::nat) < 128 \<Longrightarrow> (char_of n = CHR 0x00) = (n = 0)"
  by (simp add: char_of_eq_iff take_bit_eq_mod)

lemma ascii_no_NUL:
  "list_all (\<lambda>c. c < 128) cps \<Longrightarrow>
   (CHR 0x00 \<notin> set (map char_of cps)) = list_all (\<lambda>c::nat. 0 < c) cps"
proof (induction cps)
  case Nil
  then show ?case by simp
next
  case (Cons c cps)
  then have "(char_of c = CHR 0x00) = (c = 0)"
    by (simp add: char_of_NUL)
  with Cons show ?case
    by auto
qed

lemma ascii_same_text:
  assumes "list_all (\<lambda>c::nat. c < 128) cps"
  shows "(map of_char p = cps) = (p = map char_of cps)"
proof
  assume "map of_char p = cps"
  then have "map char_of cps = map (char_of \<circ> (of_char :: char \<Rightarrow> nat)) p"
    by auto
  then show "p = map char_of cps"
    by simp
next
  assume p: "p = map char_of cps"
  have "\<forall>c \<in> set cps. c mod 256 = c"
    using assms by (auto simp: list_all_iff)
  then have "map (\<lambda>c. c mod 256) cps = cps"
    by (simp add: map_idI)
  with p show "map of_char p = cps"
    by (simp add: comp_def)
qed

lemma convert_s_iff: "(convert_s arg = Inr p) = (c_string arg \<and> same_text arg p)"
proof (cases arg)
  case (PyStr bs)
  then show ?thesis
    by (auto simp: convert_s_def strlen_eq)
next
  case (PyUnicode cps)
  show ?thesis
  proof (cases "list_all (\<lambda>c. c < 128) cps")
    case True
    have "c_string arg = list_all (\<lambda>c. 0 < c) cps"
      using PyUnicode True by (auto simp: list_all_iff)
    moreover have "convert_s arg =
        (if CHR 0x00 \<in> set (map char_of cps) then Inl TypeError else Inr (map char_of cps))"
      using PyUnicode True strlen_eq [of "map char_of cps"]
      by (simp add: convert_s_def default_encoding_def)
    ultimately show ?thesis
      using PyUnicode ascii_no_NUL [OF True] ascii_same_text [OF True, of p]
      by auto
  next
    case False
    then show ?thesis
      using PyUnicode by (auto simp: convert_s_def default_encoding_def list_all_iff)
  qed
qed (simp_all add: convert_s_def)

lemma c_string_text:
  assumes "c_string arg"
  shows "\<exists>filename. same_text arg filename"
proof (cases arg)
  case (PyUnicode cps)
  with assms have "list_all (\<lambda>c. c < 128) cps"
    by (auto simp: list_all_iff)
  from ascii_same_text [OF this, of "map char_of cps"]
  have "map of_char (map char_of cps :: string) = cps"
    by blast
  with PyUnicode have "same_text arg (map char_of cps)"
    by simp
  then show ?thesis
    by blast
qed (use assms in simp_all)

lemma convert_s_not_string: "\<not> is_string arg \<Longrightarrow> convert_s arg = Inl TypeError"
  by (cases arg) (simp_all add: convert_s_def)

lemma parse_args_of:
  assumes "args_of args s = Some items"
  shows "PyArg_ParseTuple_s args s =
           Inr (case items of [arg] \<Rightarrow> convert_s arg | _ \<Rightarrow> Inl TypeError)"
  using assms
  by (auto simp: args_of_def PyArg_ParseTuple_s_def
           split: option.splits pyval.splits list.splits)

lemma parse_not_one_string:
  assumes "args_of args s = Some items" and "\<not> one_string items"
  shows "PyArg_ParseTuple_s args s = Inr (Inl TypeError)"
proof (cases items rule: one_string.cases)
  case (1 arg)
  with assms(2) have "convert_s arg = Inl TypeError"
    by (simp add: convert_s_not_string)
  with 1 show ?thesis
    by (simp add: parse_args_of [OF assms(1)])
qed (simp_all add: parse_args_of [OF assms(1)])

lemma parse_c_string:
  assumes "args_of args s = Some [arg]" and "c_string arg" and "same_text arg filename"
  shows "PyArg_ParseTuple_s args s = Inr (Inr filename)"
  using assms(2,3) by (simp add: parse_args_of [OF assms(1)] convert_s_iff)

subsection \<open>The paths of the adapter\<close>

text \<open>
  Once the arguments are parsed, the outcome depends on the scanning routine only through
  what it does with the parsed file name, the pointer \<^verbatim>\<open>PyList_New\<close> returned and the
  state \<^verbatim>\<open>PyList_New\<close> left.
\<close>

lemma get_comments_parsed:
  assumes "PyArg_ParseTuple_s args s = Inr (Inr filename)"
      and "PyList_New 0 s = (p, s1)"
  shows "scanner_get_comments scan_filename self args s =
           (case scan_filename filename p s1 of
              None \<Rightarrow> Aborted ScanNoReturn
            | Some s2 \<Rightarrow>
                (case Py_INCREF p s2 of
                   Inl f \<Rightarrow> Aborted f
                 | Inr s3 \<Rightarrow> Returned p s3))"
  using assms by (simp add: scanner_get_comments_def)

lemma get_comments_completes:
  assumes "PyArg_ParseTuple_s args s = Inr (Inr filename)"
      and "PyList_New 0 s = (Some l, s1)"
      and "scan_filename filename (Some l) s1 = Some s2"
      and "deref (heap s2) l = Some ob"
  shows "scanner_get_comments scan_filename self args s =
           Returned (Some l)
             (s2\<lparr>heap := store (heap s2) l (ob\<lparr>ob_refcnt := ob_refcnt ob + 1\<rparr>)\<rparr>)"
  using assms(3,4)
  by (simp add: get_comments_parsed [OF assms(1,2)] Py_INCREF_live)

lemma get_comments_scan_at:
  assumes "PyArg_ParseTuple_s args s = Inr (Inr filename)"
      and "PyList_New 0 s = (p, s1)"
      and "scan' filename p s1 = scan_filename filename p s1"
  shows "scanner_get_comments scan' self args s = scanner_get_comments scan_filename self args s"
  using assms(3) by (simp add: get_comments_parsed [OF assms(1,2)])

lemma get_comments_scan_cong:
  assumes "\<And>filename p s1.
             PyArg_ParseTuple_s args s = Inr (Inr filename) \<Longrightarrow> PyList_New 0 s = (p, s1) \<Longrightarrow>
             scan' filename p s1 = scan_filename filename p s1"
  shows "scanner_get_comments scan' self args s = scanner_get_comments scan_filename self args s"
  using assms by (simp add: scanner_get_comments_def split: sum.splits prod.splits)

lemma get_comments_Returned:
  assumes "scanner_get_comments scan_filename self args s = Returned p t"
  shows "\<exists>filename l s1. PyArg_ParseTuple_s args s = Inr (Inr filename) \<and>
           PyList_New 0 s = (Some l, s1) \<and> p = Some l"
  using assms
  by (auto simp: scanner_get_comments_def Py_INCREF_def
        split: sum.splits prod.splits option.splits)

lemma get_comments_scan_by:
  assumes "PyArg_ParseTuple_s args s = Inr (Inr filename)"
      and "PyList_New 0 s = (Some l, s1)"
  shows "\<exists>t. scanner_get_comments (scan_by f) self args s = Returned (Some l) t \<and>
             list_at t (Some l) = Some (f filename [])"
proof -
  let ?ob = "\<lparr>ob_refcnt = 1, ob_val = PyList (f filename [])\<rparr>"
  let ?s2 = "s1\<lparr>heap := store (heap s1) l ?ob\<rparr>"
  have "scan_by f filename (Some l) s1 = Some ?s2"
    by (simp add: scan_by_def PyList_New_Some(2) [OF assms(2)])
  moreover have "deref (heap ?s2) l = Some ?ob"
    by (simp add: deref_store_same)
  ultimately have
    "scanner_get_comments (scan_by f) self args s =
       Returned (Some l) (?s2\<lparr>heap := store (heap ?s2) l (?ob\<lparr>ob_refcnt := ob_refcnt ?ob + 1\<rparr>)\<rparr>)"
    by (rule get_comments_completes [where scan_filename = "scan_by f", OF assms])
  moreover have
    "list_at (?s2\<lparr>heap := store (heap ?s2) l (?ob\<lparr>ob_refcnt := ob_refcnt ?ob + 1\<rparr>)\<rparr>) (Some l)
       = Some (f filename [])"
    by (simp add: list_at_def deref_store_same)
  ultimately show ?thesis
    by blast
qed

section \<open>Malformed arguments\<close>

text \<open>
  C1: when the argument tuple is not exactly one string (another number of arguments, or
  one argument that is neither a \<open>str\<close> nor a \<open>unicode\<close>), the call raises a
  \<^verbatim>\<open>TypeError\<close> and stops before any scanning. The state it leaves is the state it found,
  so no list was allocated; and the equation holds for every scanning routine, also for
  one that never returns, so the routine was not called.
\<close>

theorem get_comments_rejects_non_string:
  assumes "args_of args s = Some items" and "\<not> one_string items"
  shows "scanner_get_comments scan_filename self args s = Raised TypeError s"
proof -
  have "PyArg_ParseTuple_s args s = Inr (Inl TypeError)"
    by (rule parse_not_one_string [OF assms])
  then show ?thesis
    by (simp add: scanner_get_comments_def)
qed

theorem get_comments_rejects_non_string_witness:
  "args_of (Some 0) (calling [PyInt 3] 8 ()) = Some [PyInt 3] \<and>
   \<not> one_string [PyInt 3] \<and>
   scanner_get_comments scan_never None (Some 0) (calling [PyInt 3] 8 ())
     = Raised TypeError (calling [PyInt 3] 8 ()) \<and>
   \<not> one_string [PyStr ''a.c'', PyStr ''b.c''] \<and>
   scanner_get_comments scan_never None (Some 0) (calling [PyStr ''a.c'', PyStr ''b.c''] 8 ())
     = Raised TypeError (calling [PyStr ''a.c'', PyStr ''b.c''] 8 ())"
proof -
  have a: "args_of (Some 0) (calling [PyInt 3] 8 ()) = Some [PyInt 3]"
    by (simp add: args_of_def calling_def deref_def)
  have b: "\<not> one_string [PyInt 3]"
    by simp
  have a': "args_of (Some 0) (calling [PyStr ''a.c'', PyStr ''b.c''] 8 ())
              = Some [PyStr ''a.c'', PyStr ''b.c'']"
    by (simp add: args_of_def calling_def deref_def)
  have b': "\<not> one_string [PyStr ''a.c'', PyStr ''b.c'']"
    by simp
  show ?thesis
    using a b b'
      get_comments_rejects_non_string [OF a b, of scan_never None]
      get_comments_rejects_non_string [OF a' b', of scan_never None]
    by simp
qed

section \<open>The result of a call with one string\<close>

text \<open>
  C2, as amended. As stated (every call with exactly one string argument returns a list,
  never \<^verbatim>\<open>NULL\<close>) it fails: the format \<^verbatim>\<open>"s"\<close> refuses a string with an embedded NUL
  byte, and the adapter then returns \<^verbatim>\<open>NULL\<close>; and when \<^verbatim>\<open>PyList_New\<close> fails, the
  adapter goes on with the \<^verbatim>\<open>NULL\<close> pointer and does not return at all.

  Amended: for every call with exactly one string argument that has a C string (a \<open>str\<close>
  without NUL byte, or a \<open>unicode\<close> of ASCII code points other than NUL), when the list
  is allocated and the scanning routine returns and leaves it a list, the call returns a
  pointer that is not \<^verbatim>\<open>NULL\<close> and points to a list.
\<close>

theorem get_comments_returns_list:
  assumes "args_of args s = Some [arg]" and "c_string arg" and "same_text arg filename"
      and "PyList_New 0 s = (Some l, s1)"
      and "scan_filename filename (Some l) s1 = Some s2"
      and "list_at s2 (Some l) \<noteq> None"
  shows "\<exists>s3. scanner_get_comments scan_filename self args s = Returned (Some l) s3 \<and>
              list_at s3 (Some l) \<noteq> None"
proof -
  from assms(6) obtain xs where "list_at s2 (Some l) = Some xs"
    by auto
  then obtain ob where ob: "deref (heap s2) l = Some ob" "ob_val ob = PyList xs"
    using list_at_Some by blast
  have "scanner_get_comments scan_filename self args s =
          Returned (Some l)
            (s2\<lparr>heap := store (heap s2) l (ob\<lparr>ob_refcnt := ob_refcnt ob + 1\<rparr>)\<rparr>)"
    by (rule get_comments_completes
          [where scan_filename = scan_filename,
           OF parse_c_string [OF assms(1-3)] assms(4,5) ob(1)])
  moreover have
    "list_at (s2\<lparr>heap := store (heap s2) l (ob\<lparr>ob_refcnt := ob_refcnt ob + 1\<rparr>)\<rparr>) (Some l)
       = Some xs"
    by (simp add: list_at_store ob(2))
  ultimately show ?thesis
    by simp
qed

theorem get_comments_returns_list_witness:
  "args_of (Some 0) (calling [PyStr ''a.c''] 8 ()) = Some [PyStr ''a.c''] \<and>
   c_string (PyStr ''a.c'') \<and>
   (\<exists>s3. scanner_get_comments (scan_by one_comment) None (Some 0) (calling [PyStr ''a.c''] 8 ())
            = Returned (Some 1) s3 \<and>
         list_at s3 (Some 1) \<noteq> None)"
proof -
  let ?s = "calling [PyStr ''a.c''] 8 () :: unit pystate"
  let ?s1 = "\<lparr>heap = [Some \<lparr>ob_refcnt = 1, ob_val = PyTuple [PyStr ''a.c'']\<rparr>,
                       Some \<lparr>ob_refcnt = 1, ob_val = PyList []\<rparr>],
              mem_limit = 8, world = ()\<rparr>"
  let ?s2 = "\<lparr>heap = [Some \<lparr>ob_refcnt = 1, ob_val = PyTuple [PyStr ''a.c'']\<rparr>,
                       Some \<lparr>ob_refcnt = 1, ob_val = PyList [PyStr ''/* a.c */'']\<rparr>],
              mem_limit = 8, world = ()\<rparr>"
  have a: "args_of (Some 0) ?s = Some [PyStr ''a.c'']"
    by (simp add: args_of_def calling_def deref_def)
  have b: "c_string (PyStr ''a.c'')"
    by simp
  have c: "same_text (PyStr ''a.c'') ''a.c''"
    by simp
  have d: "PyList_New 0 ?s = (Some 1, ?s1)"
    by (simp add: PyList_New_def calling_def store_def)
  have e: "scan_by one_comment ''a.c'' (Some 1) ?s1 = Some ?s2"
    by (simp add: scan_by_def deref_def store_def one_comment_def)
  have f: "list_at ?s2 (Some 1) \<noteq> None"
    by (simp add: list_at_def deref_def)
  show ?thesis
    using a b
      get_comments_returns_list [where scan_filename = "scan_by one_comment" and self = None,
        OF a b c d e f]
    by simp
qed

text \<open>
  The two inputs at which C2 fails as stated: the one string \<^verbatim>\<open>"a\0b"\<close>, for which the call
  raises a \<^verbatim>\<open>TypeError\<close>; and the one string \<^verbatim>\<open>"a.c"\<close> in a state with no address left
  for the list, where the call dereferences \<^verbatim>\<open>NULL\<close> (the scanning routine here returns
  at once). The last two lines are why the amended claim asks the scanning routine to
  return and to leave the list a list: a routine that never returns, and one that frees
  every object.
\<close>

theorem get_comments_returns_list_counterexample:
  "one_string [PyStr [CHR ''a'', CHR 0x00, CHR ''b'']] \<and>
   scanner_get_comments (scan_by one_comment) None (Some 0)
       (calling [PyStr [CHR ''a'', CHR 0x00, CHR ''b'']] 8 ())
     = Raised TypeError (calling [PyStr [CHR ''a'', CHR 0x00, CHR ''b'']] 8 ()) \<and>
   one_string [PyStr ''a.c''] \<and>
   scanner_get_comments scan_nothing None (Some 0) (calling [PyStr ''a.c''] 1 ())
     = Aborted NullDereference \<and>
   scanner_get_comments scan_never None (Some 0) (calling [PyStr ''a.c''] 8 ())
     = Aborted ScanNoReturn \<and>
   scanner_get_comments scan_frees None (Some 0)
       (calling [PyStr ''a.c''] 8 ())
     = Aborted DanglingPointer"
  by (simp add: scanner_get_comments_def PyArg_ParseTuple_s_def calling_def deref_def
        convert_s_def strlen_def PyList_New_def Py_INCREF_def
        scan_nothing_def scan_never_def scan_unless_NULL_def scan_frees_def)

section \<open>The list that is handed over and handed back\<close>

text \<open>
  C3, as amended. As stated (for every call with one string argument the scanning routine
  is handed a new, empty list and the caller gets that list back) it fails: when
  \<^verbatim>\<open>PyList_New\<close> fails the routine is handed \<^verbatim>\<open>NULL\<close>; for a string with a NUL byte
  nothing is handed over and nothing comes back; and nothing comes back from a routine
  that does not return or that frees the list.

  Amended: for every call with one string argument that has a C string, when the list is
  allocated: there was no object at the list's address before the call; in the state
  handed to the scanning routine the list is empty and has one reference; the routine is
  called with that file name, that pointer and that state (a routine that does not return
  from them makes the call not return) and with nothing else (a routine that would not
  return from anything else gives the same outcome), whatever the routine then does. And
  when the routine returns and leaves a list with the entries \<open>xs\<close>, the call returns
  the same pointer, to a list with the entries \<open>xs\<close> in the same order.
\<close>

theorem get_comments_hands_back_scanned_list:
  assumes "args_of args s = Some [arg]" and "c_string arg" and "same_text arg filename"
      and "PyList_New 0 s = (Some l, s1)"
  shows "deref (heap s) l = None \<and>
         deref (heap s1) l = Some \<lparr>ob_refcnt = 1, ob_val = PyList []\<rparr> \<and>
         scanner_get_comments
             (\<lambda>f p t. if f = filename \<and> p = Some l \<and> t = s1 then scan_filename f p t else None)
             self args s
           = scanner_get_comments scan_filename self args s \<and>
         scanner_get_comments
             (\<lambda>f p t. if f = filename \<and> p = Some l \<and> t = s1 then None else scan_filename f p t)
             self args s
           = Aborted ScanNoReturn \<and>
         (scan_filename filename (Some l) s1 = Some s2 \<and> list_at s2 (Some l) = Some xs \<longrightarrow>
            (\<exists>s3. scanner_get_comments scan_filename self args s = Returned (Some l) s3 \<and>
                  list_at s3 (Some l) = Some xs))"
proof -
  note parse = parse_c_string [OF assms(1-3)]
  have returned:
    "\<exists>s3. scanner_get_comments scan_filename self args s = Returned (Some l) s3 \<and>
          list_at s3 (Some l) = Some xs"
    if scanned: "scan_filename filename (Some l) s1 = Some s2"
      and left: "list_at s2 (Some l) = Some xs"
  proof -
    from list_at_Some [OF left] obtain ob
      where ob: "deref (heap s2) l = Some ob" "ob_val ob = PyList xs"
      by blast
    have "scanner_get_comments scan_filename self args s =
            Returned (Some l)
              (s2\<lparr>heap := store (heap s2) l (ob\<lparr>ob_refcnt := ob_refcnt ob + 1\<rparr>)\<rparr>)"
      by (rule get_comments_completes
            [where scan_filename = scan_filename, OF parse assms(4) scanned ob(1)])
    moreover have
      "list_at (s2\<lparr>heap := store (heap s2) l (ob\<lparr>ob_refcnt := ob_refcnt ob + 1\<rparr>)\<rparr>) (Some l)
         = Some xs"
      by (simp add: list_at_store ob(2))
    ultimately show ?thesis
      by simp
  qed
  have handed:
    "scanner_get_comments
         (\<lambda>f p t. if f = filename \<and> p = Some l \<and> t = s1 then scan_filename f p t else None)
         self args s
       = scanner_get_comments scan_filename self args s"
    by (rule get_comments_scan_at [OF parse assms(4)]) simp
  have called:
    "scanner_get_comments
         (\<lambda>f p t. if f = filename \<and> p = Some l \<and> t = s1 then None else scan_filename f p t)
         self args s
       = Aborted ScanNoReturn"
    by (simp add: get_comments_parsed [OF parse assms(4)])
  show ?thesis
    using PyList_New_Some(1,2) [OF assms(4)] handed called returned by blast
qed

theorem get_comments_hands_back_scanned_list_witness:
  "c_string (PyUnicode [97, 46, 99]) \<and>
   same_text (PyUnicode [97, 46, 99]) ''a.c'' \<and>
   deref (heap (calling [PyUnicode [97, 46, 99]] 8 ())) 1 = None \<and>
   (\<exists>s3. scanner_get_comments (scan_by one_comment) None (Some 0)
              (calling [PyUnicode [97, 46, 99]] 8 ())
            = Returned (Some 1) s3 \<and>
         list_at s3 (Some 1) = Some [PyStr ''/* a.c */''])"
proof -
  let ?s = "calling [PyUnicode [97, 46, 99]] 8 () :: unit pystate"
  let ?s1 = "\<lparr>heap = [Some \<lparr>ob_refcnt = 1, ob_val = PyTuple [PyUnicode [97, 46, 99]]\<rparr>,
                       Some \<lparr>ob_refcnt = 1, ob_val = PyList []\<rparr>],
              mem_limit = 8, world = ()\<rparr>"
  let ?s2 = "\<lparr>heap = [Some \<lparr>ob_refcnt = 1, ob_val = PyTuple [PyUnicode [97, 46, 99]]\<rparr>,
                       Some \<lparr>ob_refcnt = 1, ob_val = PyList [PyStr ''/* a.c */'']\<rparr>],
              mem_limit = 8, world = ()\<rparr>"
  have a: "args_of (Some 0) ?s = Some [PyUnicode [97, 46, 99]]"
    by (simp add: args_of_def calling_def deref_def)
  have b: "c_string (PyUnicode [97, 46, 99])"
    by simp
  have c: "same_text (PyUnicode [97, 46, 99]) ''a.c''"
    by simp
  have d: "PyList_New 0 ?s = (Some 1, ?s1)"
    by (simp add: PyList_New_def calling_def store_def)
  have e: "scan_by one_comment ''a.c'' (Some 1) ?s1 = Some ?s2"
    by (simp add: scan_by_def deref_def store_def one_comment_def)
  have f: "list_at ?s2 (Some 1) = Some [PyStr ''/* a.c */'']"
    by (simp add: list_at_def deref_def)
  from get_comments_hands_back_scanned_list
         [where scan_filename = "scan_by one_comment" and self = None and ?s2.0 = ?s2
            and xs = "[PyStr ''/* a.c */'']", OF a b c d]
       e f
  have "deref (heap ?s) 1 = None \<and>
        (\<exists>s3. scanner_get_comments (scan_by one_comment) None (Some 0) ?s = Returned (Some 1) s3 \<and>
              list_at s3 (Some 1) = Some [PyStr ''/* a.c */''])"
    by blast
  with b c show ?thesis
    by blast
qed

text \<open>
  The inputs at which C3 fails as stated. With no address left for the list, a routine that
  returns unless it is handed \<^verbatim>\<open>NULL\<close> does not return: it was handed \<^verbatim>\<open>NULL\<close>. For the
  string \<^verbatim>\<open>"\0"\<close> the call raises a \<^verbatim>\<open>TypeError\<close> and returns no list. And no list comes
  back from a routine that never returns or from one that frees every object: these two
  bear on the last sentence of the amended claim only.
\<close>

theorem get_comments_hands_back_scanned_list_counterexample:
  "one_string [PyStr ''a.c''] \<and>
   fst (PyList_New 0 (calling [PyStr ''a.c''] 1 ())) = None \<and>
   scanner_get_comments scan_unless_NULL
       None (Some 0) (calling [PyStr ''a.c''] 1 ())
     = Aborted ScanNoReturn \<and>
   one_string [PyStr [CHR 0x00]] \<and>
   scanner_get_comments (scan_by one_comment) None (Some 0) (calling [PyStr [CHR 0x00]] 8 ())
     = Raised TypeError (calling [PyStr [CHR 0x00]] 8 ()) \<and>
   scanner_get_comments scan_never None (Some 0) (calling [PyStr ''b.c''] 8 ())
     = Aborted ScanNoReturn \<and>
   scanner_get_comments scan_frees None (Some 0)
       (calling [PyStr ''b.c''] 8 ())
     = Aborted DanglingPointer"
  by (simp add: scanner_get_comments_def PyArg_ParseTuple_s_def calling_def deref_def
        convert_s_def strlen_def PyList_New_def Py_INCREF_def
        scan_nothing_def scan_never_def scan_unless_NULL_def scan_frees_def)

section \<open>The reference count of the returned list\<close>

text \<open>
  C4 says that the list comes back with exactly the one reference that is handed to the
  caller. The code does otherwise: \<^verbatim>\<open>PyList_New\<close> creates the list with one reference,
  and \<^verbatim>\<open>Py_INCREF\<close> adds one to whatever count the scanning routine leaves. For every
  call with one string argument that has a C string, when the list is allocated and the
  routine returns and leaves the count \<open>r\<close>, the list is returned with the count \<open>r + 1\<close>:
  with a routine that keeps no reference of its own, 2.
\<close>

theorem get_comments_returns_second_reference:
  assumes "args_of args s = Some [arg]" and "c_string arg" and "same_text arg filename"
      and "PyList_New 0 s = (Some l, s1)"
      and "scan_filename filename (Some l) s1 = Some s2"
      and "refcnt_at s2 (Some l) = Some r"
  shows "refcnt_at s1 (Some l) = Some 1 \<and>
         (\<exists>s3. scanner_get_comments scan_filename self args s = Returned (Some l) s3 \<and>
               refcnt_at s3 (Some l) = Some (r + 1))"
proof -
  from assms(6) obtain ob where ob: "deref (heap s2) l = Some ob" "ob_refcnt ob = r"
    by (auto simp: refcnt_at_def)
  have "scanner_get_comments scan_filename self args s =
          Returned (Some l)
            (s2\<lparr>heap := store (heap s2) l (ob\<lparr>ob_refcnt := ob_refcnt ob + 1\<rparr>)\<rparr>)"
    by (rule get_comments_completes
          [where scan_filename = scan_filename,
           OF parse_c_string [OF assms(1-3)] assms(4,5) ob(1)])
  moreover have "refcnt_at s1 (Some l) = Some 1"
    by (simp add: refcnt_at_def PyList_New_Some(2) [OF assms(4)])
  ultimately show ?thesis
    by (simp add: refcnt_at_store ob(2))
qed

theorem get_comments_returns_second_reference_witness:
  "c_string (PyStr ''a.c'') \<and>
   refcnt_at (snd (PyList_New 0 (calling [PyStr ''a.c''] 8 ()))) (Some 1) = Some 1 \<and>
   (\<exists>s3. scanner_get_comments (scan_by one_comment) None (Some 0) (calling [PyStr ''a.c''] 8 ())
            = Returned (Some 1) s3 \<and>
         refcnt_at s3 (Some 1) = Some 2)"
proof -
  let ?s = "calling [PyStr ''a.c''] 8 () :: unit pystate"
  let ?s1 = "\<lparr>heap = [Some \<lparr>ob_refcnt = 1, ob_val = PyTuple [PyStr ''a.c'']\<rparr>,
                       Some \<lparr>ob_refcnt = 1, ob_val = PyList []\<rparr>],
              mem_limit = 8, world = ()\<rparr>"
  let ?s2 = "\<lparr>heap = [Some \<lparr>ob_refcnt = 1, ob_val = PyTuple [PyStr ''a.c'']\<rparr>,
                       Some \<lparr>ob_refcnt = 1, ob_val = PyList [PyStr ''/* a.c */'']\<rparr>],
              mem_limit = 8, world = ()\<rparr>"
  have a: "args_of (Some 0) ?s = Some [PyStr ''a.c'']"
    by (simp add: args_of_def calling_def deref_def)
  have b: "c_string (PyStr ''a.c'')"
    by simp
  have c: "same_text (PyStr ''a.c'') ''a.c''"
    by simp
  have d: "PyList_New 0 ?s = (Some 1, ?s1)"
    by (simp add: PyList_New_def calling_def store_def)
  have e: "scan_by one_comment ''a.c'' (Some 1) ?s1 = Some ?s2"
    by (simp add: scan_by_def deref_def store_def one_comment_def)
  have f: "refcnt_at ?s2 (Some 1) = Some 1"
    by (simp add: refcnt_at_def deref_def)
  show ?thesis
    using b d
      get_comments_returns_second_reference
        [where scan_filename = "scan_by one_comment" and self = None, OF a b c d e f]
    by (simp add: numeral_2_eq_2)
qed

section \<open>When the call raises\<close>

text \<open>
  C5, as amended. As stated it fails in its second half: a call that supplies exactly one
  string argument does raise when the string has no C string (\<^verbatim>\<open>u"\xe9.c"\<close> is not
  ASCII, \<^verbatim>\<open>"a\0b"\<close> has a NUL byte), and it does not complete when \<^verbatim>\<open>PyList_New\<close> fails.

  Amended: the call raises if and only if argument parsing fails. For every call whose one
  string argument has a C string, parsing succeeds with the text of that string and the
  call raises nothing; and it completes, returning the list, when the list is allocated
  and the scanning routine returns without freeing it.
\<close>

theorem get_comments_raises_iff_parse_fails:
  "((\<exists>e t. scanner_get_comments scan_filename self args s = Raised e t) =
      (\<exists>e. PyArg_ParseTuple_s args s = Inr (Inl e))) \<and>
   (args_of args s = Some [arg] \<and> c_string arg \<longrightarrow>
      (\<exists>filename. PyArg_ParseTuple_s args s = Inr (Inr filename) \<and> same_text arg filename) \<and>
      (\<forall>e t. scanner_get_comments scan_filename self args s \<noteq> Raised e t)) \<and>
   (args_of args s = Some [arg] \<and> c_string arg \<and> same_text arg filename \<and>
    PyList_New 0 s = (Some l, s1) \<and> scan_filename filename (Some l) s1 = Some s2 \<and>
    deref (heap s2) l \<noteq> None \<longrightarrow>
      (\<exists>s3. scanner_get_comments scan_filename self args s = Returned (Some l) s3))"
proof -
  have raises:
    "(\<exists>e t. scanner_get_comments scan_filename self args s = Raised e t) =
       (\<exists>e. PyArg_ParseTuple_s args s = Inr (Inl e))"
    by (auto simp: scanner_get_comments_def split: sum.splits option.splits prod.splits)
  have parses:
    "\<exists>filename. PyArg_ParseTuple_s args s = Inr (Inr filename) \<and> same_text arg filename"
    if "args_of args s = Some [arg]" "c_string arg"
  proof -
    from that(2) obtain filename where "same_text arg filename"
      using c_string_text by blast
    then show ?thesis
      using parse_c_string [OF that] by blast
  qed
  have completes:
    "\<exists>s3. scanner_get_comments scan_filename self args s = Returned (Some l) s3"
    if "args_of args s = Some [arg]" "c_string arg" "same_text arg filename"
       "PyList_New 0 s = (Some l, s1)" "scan_filename filename (Some l) s1 = Some s2"
       "deref (heap s2) l \<noteq> None"
  proof -
    from that(6) obtain ob where "deref (heap s2) l = Some ob"
      by auto
    then show ?thesis
      using get_comments_completes
        [where scan_filename = scan_filename, OF parse_c_string [OF that(1-3)] that(4,5)]
      by blast
  qed
  show ?thesis
    using raises parses completes by (metis sum.inject(2) old.sum.distinct(2))
qed

theorem get_comments_raises_iff_parse_fails_witness:
  "args_of (Some 0) (calling [PyStr ''a.c''] 8 ()) = Some [PyStr ''a.c''] \<and>
   c_string (PyStr ''a.c'') \<and>
   (\<forall>e t. scanner_get_comments (scan_by one_comment) None (Some 0)
             (calling [PyStr ''a.c''] 8 ()) \<noteq> Raised e t) \<and>
   (\<exists>s3. scanner_get_comments (scan_by one_comment) None (Some 0)
            (calling [PyStr ''a.c''] 8 ()) = Returned (Some 1) s3) \<and>
   PyArg_ParseTuple_s (Some 0) (calling [PyInt 3] 8 ()) = Inr (Inl TypeError) \<and>
   (\<exists>e t. scanner_get_comments (scan_by one_comment) None (Some 0)
             (calling [PyInt 3] 8 ()) = Raised e t)"
proof -
  let ?s = "calling [PyStr ''a.c''] 8 () :: unit pystate"
  let ?s1 = "\<lparr>heap = [Some \<lparr>ob_refcnt = 1, ob_val = PyTuple [PyStr ''a.c'']\<rparr>,
                       Some \<lparr>ob_refcnt = 1, ob_val = PyList []\<rparr>],
              mem_limit = 8, world = ()\<rparr>"
  let ?s2 = "\<lparr>heap = [Some \<lparr>ob_refcnt = 1, ob_val = PyTuple [PyStr ''a.c'']\<rparr>,
                       Some \<lparr>ob_refcnt = 1, ob_val = PyList [PyStr ''/* a.c */'']\<rparr>],
              mem_limit = 8, world = ()\<rparr>"
  have a: "args_of (Some 0) ?s = Some [PyStr ''a.c'']"
    by (simp add: args_of_def calling_def deref_def)
  have b: "c_string (PyStr ''a.c'')"
    by simp
  have c: "same_text (PyStr ''a.c'') ''a.c''"
    by simp
  have d: "PyList_New 0 ?s = (Some 1, ?s1)"
    by (simp add: PyList_New_def calling_def store_def)
  have e: "scan_by one_comment ''a.c'' (Some 1) ?s1 = Some ?s2"
    by (simp add: scan_by_def deref_def store_def one_comment_def)
  have f: "deref (heap ?s2) 1 \<noteq> None"
    by (simp add: deref_def)
  have g: "PyArg_ParseTuple_s (Some 0) (calling [PyInt 3] 8 ()) = Inr (Inl TypeError)"
    by (simp add: PyArg_ParseTuple_s_def calling_def deref_def convert_s_def)
  note ok = get_comments_raises_iff_parse_fails
    [where scan_filename = "scan_by one_comment" and self = None and args = "Some 0"
       and s = ?s and arg = "PyStr ''a.c''" and filename = "''a.c''" and l = 1
       and ?s1.0 = ?s1 and ?s2.0 = ?s2]
  note bad = get_comments_raises_iff_parse_fails
    [where scan_filename = "scan_by one_comment" and self = None and args = "Some 0"
       and s = "calling [PyInt 3] 8 ()"]
  from ok a b c d e f
  have "(\<forall>e t. scanner_get_comments (scan_by one_comment) None (Some 0) ?s \<noteq> Raised e t) \<and>
        (\<exists>s3. scanner_get_comments (scan_by one_comment) None (Some 0) ?s = Returned (Some 1) s3)"
    by blast
  moreover from bad g
  have "\<exists>e t. scanner_get_comments (scan_by one_comment) None (Some 0)
                 (calling [PyInt 3] 8 ()) = Raised e t"
    by blast
  ultimately show ?thesis
    using a b g by blast
qed

text \<open>
  The inputs at which C5 fails as stated: the one string \<^verbatim>\<open>u"\xe9.c"\<close>, for which the call
  raises a \<^verbatim>\<open>UnicodeEncodeError\<close>; and the one string \<^verbatim>\<open>"a.c"\<close> with no address left for
  the list, where the call does not complete. Nor does it complete with a scanning routine
  that never returns or that frees every object.
\<close>

theorem get_comments_raises_iff_parse_fails_counterexample:
  "one_string [PyUnicode [233, 46, 99]] \<and>
   scanner_get_comments (scan_by one_comment) None (Some 0)
       (calling [PyUnicode [233, 46, 99]] 8 ())
     = Raised UnicodeEncodeError (calling [PyUnicode [233, 46, 99]] 8 ()) \<and>
   one_string [PyStr ''a.c''] \<and>
   scanner_get_comments scan_nothing None (Some 0) (calling [PyStr ''a.c''] 0 ())
     = Aborted NullDereference \<and>
   scanner_get_comments scan_never None (Some 0) (calling [PyStr ''c.c''] 8 ())
     = Aborted ScanNoReturn \<and>
   scanner_get_comments scan_frees None (Some 0)
       (calling [PyStr ''c.c''] 8 ())
     = Aborted DanglingPointer"
  by (simp add: scanner_get_comments_def PyArg_ParseTuple_s_def calling_def deref_def
        convert_s_def default_encoding_def strlen_def PyList_New_def Py_INCREF_def
        scan_nothing_def scan_never_def scan_frees_def)

section \<open>The call surface of the module\<close>

text \<open>
  C6: the method table has one row before its end marker, named \<^verbatim>\<open>get_comments\<close>; the
  module that \<^verbatim>\<open>initc_comment_scanner\<close> registers offers that one name to call and nothing
  else, and the name is bound to the adapter.
\<close>

theorem module_offers_get_comments_only:
  "map ml_name (ScannerMethods scan_filename) = [Some ''get_comments'', None] \<and>
   callables (md_dict (initc_comment_scanner scan_filename)) = [''get_comments''] \<and>
   map_of (md_dict (initc_comment_scanner scan_filename)) ''get_comments''
     = Some (Builtin \<lparr>ml_name = Some ''get_comments'',
                      ml_meth = Some (scanner_get_comments scan_filename),
                      ml_flags = METH_VARARGS,
                      ml_doc = Some ''Get comments from a filename.''\<rparr>)"
proof -
  let ?row = "\<lparr>ml_name = Some ''get_comments'',
               ml_meth = Some (scanner_get_comments scan_filename),
               ml_flags = METH_VARARGS,
               ml_doc = Some ''Get comments from a filename.''\<rparr>"
  have table: "map ml_name (ScannerMethods scan_filename) = [Some ''get_comments'', None]"
    by (simp add: ScannerMethods_def)
  have dict:
    "md_dict (initc_comment_scanner scan_filename) =
       [(''__name__'', Data (PyStr ''c_comment_scanner'')), (''__doc__'', Data PyNone),
        (''__package__'', Data PyNone), (''get_comments'', Builtin ?row)]"
    by (simp add: ScannerMethods_def initc_comment_scanner_def Py_InitModule_def)
  show ?thesis
    unfolding dict using table by simp
qed

section \<open>What the adapter changes\<close>

text \<open>
  C7: for every call, the adapter's own steps change nothing but the new list. The scanning
  routine is only ever called in a state that is the state of the call with nothing
  changed but the new list object (or nothing at all), so a routine restricted to such
  states gives the same outcome; the argument tuple, and the file name in it, reads the
  same in that state. When the call raises, the state is the state of the call. When it
  returns, the state is the one the routine left with nothing changed but the object of
  the returned list, at an address that held no object before the call.
\<close>

theorem get_comments_frame:
  "scanner_get_comments
       (\<lambda>f p t. if fresh_list_only s p t then scan_filename f p t else None) self args s
     = scanner_get_comments scan_filename self args s \<and>
   args_of args (snd (PyList_New 0 s)) = args_of args s \<and>
   (case scanner_get_comments scan_filename self args s of
      Returned p t \<Rightarrow>
        (\<exists>l filename s2.
            p = Some l \<and> deref (heap s) l = None \<and>
            scan_filename filename p (snd (PyList_New 0 s)) = Some s2 \<and>
            alike_except {l} s2 t \<and> args_of args t = args_of args s2)
    | Raised e t \<Rightarrow> t = s
    | Aborted f \<Rightarrow> True)"
proof -
  have handed:
    "scanner_get_comments
         (\<lambda>f p t. if fresh_list_only s p t then scan_filename f p t else None) self args s
       = scanner_get_comments scan_filename self args s"
    by (rule get_comments_scan_cong) (simp add: fresh_list_only_PyList_New)
  have left:
    "case scanner_get_comments scan_filename self args s of
       Returned p t \<Rightarrow>
         (\<exists>l filename s2.
             p = Some l \<and> deref (heap s) l = None \<and>
             scan_filename filename p (snd (PyList_New 0 s)) = Some s2 \<and>
             alike_except {l} s2 t \<and> args_of args t = args_of args s2)
     | Raised e t \<Rightarrow> t = s
     | Aborted f \<Rightarrow> True"
  proof (cases "PyArg_ParseTuple_s args s")
    case (Inl f)
    then show ?thesis
      by (simp add: scanner_get_comments_def)
  next
    case (Inr r)
    show ?thesis
    proof (cases r)
      case (Inl e)
      with Inr show ?thesis
        by (simp add: scanner_get_comments_def)
    next
      case parsed: (Inr filename)
      obtain p s1 where new: "PyList_New 0 s = (p, s1)"
        by (cases "PyList_New 0 s")
      note run = get_comments_parsed [OF Inr [unfolded parsed] new]
      show ?thesis
      proof (cases "scan_filename filename p s1")
        case None
        then show ?thesis
          by (simp add: run)
      next
        case scanned: (Some s2)
        show ?thesis
        proof (cases p)
          case None
          with scanned show ?thesis
            by (simp add: run Py_INCREF_def)
        next
          case (Some l)
          show ?thesis
          proof (cases "deref (heap s2) l")
            case None
            with scanned Some show ?thesis
              by (simp add: run Py_INCREF_def)
          next
            case live: (Some ob)
            let ?t = "s2\<lparr>heap := store (heap s2) l (ob\<lparr>ob_refcnt := ob_refcnt ob + 1\<rparr>)\<rparr>"
            have returned: "scanner_get_comments scan_filename self args s = Returned (Some l) ?t"
              using scanned Some live by (simp add: run Py_INCREF_live)
            have fresh: "deref (heap s) l = None"
              using new Some by (simp add: PyList_New_Some(1))
            have same_args: "args_of args ?t = args_of args s2"
              by (rule args_of_store_same_val [OF live]) simp
            have "\<exists>l' filename' s2'.
                    Some l = Some l' \<and> deref (heap s) l' = None \<and>
                    scan_filename filename' (Some l) (snd (PyList_New 0 s)) = Some s2' \<and>
                    alike_except {l'} s2' ?t \<and> args_of args ?t = args_of args s2'"
              using fresh scanned Some new same_args
              by (intro exI [of _ l] exI [of _ filename] exI [of _ s2])
                 (simp add: alike_except_store)
            then show ?thesis
              by (simp add: returned Some)
          qed
        qed
      qed
    qed
  qed
  show ?thesis
    using handed left by (simp add: args_of_PyList_New)
qed

theorem get_comments_frame_witness:
  "scanner_get_comments (scan_by one_comment) None (Some 0) (calling [PyStr ''a.c''] 8 ())
     = Returned (Some 1)
         \<lparr>heap = [Some \<lparr>ob_refcnt = 1, ob_val = PyTuple [PyStr ''a.c'']\<rparr>,
                  Some \<lparr>ob_refcnt = 2, ob_val = PyList [PyStr ''/* a.c */'']\<rparr>],
          mem_limit = 8, world = ()\<rparr> \<and>
   args_of (Some 0) (snd (PyList_New 0 (calling [PyStr ''a.c''] 8 ()))) = Some [PyStr ''a.c''] \<and>
   (\<exists>filename s2.
       deref (heap (calling [PyStr ''a.c''] 8 ())) 1 = None \<and>
       scan_by one_comment filename (Some 1) (snd (PyList_New 0 (calling [PyStr ''a.c''] 8 ())))
         = Some s2 \<and>
       alike_except {1} s2
         \<lparr>heap = [Some \<lparr>ob_refcnt = 1, ob_val = PyTuple [PyStr ''a.c'']\<rparr>,
                  Some \<lparr>ob_refcnt = 2, ob_val = PyList [PyStr ''/* a.c */'']\<rparr>],
          mem_limit = 8, world = ()\<rparr> \<and>
       args_of (Some 0)
         \<lparr>heap = [Some \<lparr>ob_refcnt = 1, ob_val = PyTuple [PyStr ''a.c'']\<rparr>,
                  Some \<lparr>ob_refcnt = 2, ob_val = PyList [PyStr ''/* a.c */'']\<rparr>],
          mem_limit = 8, world = ()\<rparr>
         = args_of (Some 0) s2)"
proof -
  let ?s = "calling [PyStr ''a.c''] 8 () :: unit pystate"
  let ?t = "\<lparr>heap = [Some \<lparr>ob_refcnt = 1, ob_val = PyTuple [PyStr ''a.c'']\<rparr>,
                      Some \<lparr>ob_refcnt = 2, ob_val = PyList [PyStr ''/* a.c */'']\<rparr>],
             mem_limit = 8, world = ()\<rparr>"
  have run: "scanner_get_comments (scan_by one_comment) None (Some 0) ?s = Returned (Some 1) ?t"
    by (simp add: scanner_get_comments_def PyArg_ParseTuple_s_def calling_def deref_def
          convert_s_def strlen_def PyList_New_def store_def scan_by_def one_comment_def
          Py_INCREF_def)
  have args: "args_of (Some 0) ?s = Some [PyStr ''a.c'']"
    by (simp add: args_of_def calling_def deref_def)
  show ?thesis
    using get_comments_frame
      [where scan_filename = "scan_by one_comment" and self = None and args = "Some 0"
         and s = ?s]
    by (simp add: run args)
qed

section \<open>The unchecked allocation\<close>

text \<open>
  C8: after the arguments are parsed, the result of \<^verbatim>\<open>PyList_New\<close> is used unchecked.
  When it is \<^verbatim>\<open>NULL\<close>, the scanning routine is called with \<^verbatim>\<open>NULL\<close> (in the unchanged
  state) and, if it returns, \<^verbatim>\<open>Py_INCREF\<close> dereferences \<^verbatim>\<open>NULL\<close>. When it is not
  \<^verbatim>\<open>NULL\<close>, the call never dereferences \<^verbatim>\<open>NULL\<close> and never hands \<^verbatim>\<open>NULL\<close> to the
  routine: a routine that would not return from \<^verbatim>\<open>NULL\<close> changes nothing.
\<close>

theorem get_comments_unchecked_allocation:
  assumes "PyArg_ParseTuple_s args s = Inr (Inr filename)"
  shows "(fst (PyList_New 0 s) = None \<longrightarrow>
            scanner_get_comments scan_filename self args s =
              (case scan_filename filename None s of
                 None \<Rightarrow> Aborted ScanNoReturn
               | Some s2 \<Rightarrow> Aborted NullDereference)) \<and>
         (fst (PyList_New 0 s) \<noteq> None \<longrightarrow>
            scanner_get_comments scan_filename self args s \<noteq> Aborted NullDereference \<and>
            scanner_get_comments
                (\<lambda>f p t. if p = None then None else scan_filename f p t) self args s
              = scanner_get_comments scan_filename self args s)"
proof (cases "PyList_New 0 s")
  case (Pair p s1)
  show ?thesis
  proof (cases p)
    case None
    with Pair have "s1 = s"
      by (simp add: PyList_New_None)
    with Pair None show ?thesis
      by (simp add: get_comments_parsed [OF assms Pair] Py_INCREF_def split: option.splits)
  next
    case (Some l)
    have "scanner_get_comments scan_filename self args s \<noteq> Aborted NullDereference"
      using Some
      by (simp add: get_comments_parsed [OF assms Pair] Py_INCREF_def
            split: option.splits sum.splits)
    moreover have
      "scanner_get_comments (\<lambda>f p t. if p = None then None else scan_filename f p t) self args s
         = scanner_get_comments scan_filename self args s"
      by (rule get_comments_scan_at [OF assms Pair]) (simp add: Some)
    ultimately show ?thesis
      using Pair Some by simp
  qed
qed

theorem get_comments_unchecked_allocation_witness:
  "PyArg_ParseTuple_s (Some 0) (calling [PyStr ''a.c''] 1 ()) = Inr (Inr ''a.c'') \<and>
   fst (PyList_New 0 (calling [PyStr ''a.c''] 1 ())) = None \<and>
   scanner_get_comments scan_nothing None (Some 0) (calling [PyStr ''a.c''] 1 ())
     = Aborted NullDereference \<and>
   PyArg_ParseTuple_s (Some 0) (calling [PyStr ''a.c''] 8 ()) = Inr (Inr ''a.c'') \<and>
   fst (PyList_New 0 (calling [PyStr ''a.c''] 8 ())) = Some 1 \<and>
   scanner_get_comments scan_nothing None (Some 0) (calling [PyStr ''a.c''] 8 ())
     \<noteq> Aborted NullDereference"
proof -
  have a: "PyArg_ParseTuple_s (Some 0) (calling [PyStr ''a.c''] 1 ()) = Inr (Inr ''a.c'')"
    by (simp add: PyArg_ParseTuple_s_def calling_def deref_def convert_s_def strlen_def)
  have b: "fst (PyList_New 0 (calling [PyStr ''a.c''] 1 ())) = None"
    by (simp add: PyList_New_def calling_def)
  have c: "PyArg_ParseTuple_s (Some 0) (calling [PyStr ''a.c''] 8 ()) = Inr (Inr ''a.c'')"
    by (simp add: PyArg_ParseTuple_s_def calling_def deref_def convert_s_def strlen_def)
  have d: "fst (PyList_New 0 (calling [PyStr ''a.c''] 8 ())) = Some 1"
    by (simp add: PyList_New_def calling_def)
  show ?thesis
    using a b c d
      get_comments_unchecked_allocation
        [where scan_filename = scan_nothing and self = None, OF a]
      get_comments_unchecked_allocation
        [where scan_filename = scan_nothing and self = None, OF c]
    by (simp add: scan_nothing_def)
qed

section \<open>The file name that is forwarded\<close>

text \<open>
  C9: the file name goes to the scanning routine as the caller supplied it. For every call
  with one argument, the routine is never called with a C string that is not the text of
  that argument (the bytes of a \<open>str\<close>, the code points of a \<open>unicode\<close>): a routine
  that would not return from any other text gives the same outcome. When the argument
  has a C string, the routine is called with its text: a routine that does not return
  from that one text makes the call not return; when the list is allocated and the routine
  returns from that text, the new list and the state it was handed, the call returns what
  the routine left, with one more reference to the list; and the routine that writes down
  its arguments has written down, when the call returns, that text and the pointer to the
  new list, once.
\<close>

theorem get_comments_forwards_filename:
  fixes s :: "'w pystate" and u :: "(string \<times> PyObject_ptr) list pystate"
  assumes "args_of args s = Some [arg]"
  shows "scanner_get_comments
             (\<lambda>f p t. if same_text arg f then scan_filename f p t else None) self args s
           = scanner_get_comments scan_filename self args s \<and>
         (c_string arg \<longrightarrow>
            (\<exists>filename. same_text arg filename \<and>
               scanner_get_comments
                   (\<lambda>f p t. if f = filename then None else scan_filename f p t) self args s
                 = Aborted ScanNoReturn)) \<and>
         (c_string arg \<and> same_text arg filename \<and> PyList_New 0 s = (Some l, s1) \<and>
          scan_filename filename (Some l) s1 = Some s2 \<and> deref (heap s2) l = Some ob \<longrightarrow>
            scanner_get_comments scan_filename self args s =
              Returned (Some l)
                (s2\<lparr>heap := store (heap s2) l (ob\<lparr>ob_refcnt := ob_refcnt ob + 1\<rparr>)\<rparr>)) \<and>
         (args_of args' u = Some [arg] \<and> c_string arg \<and> same_text arg filename' \<and>
          PyList_New 0 u = (Some l', u1) \<longrightarrow>
            (\<exists>t. scanner_get_comments scan_log self' args' u = Returned (Some l') t \<and>
                 world t = world u @ [(filename', Some l')]))"
proof -
  have parsed: "same_text arg filename"
    if "PyArg_ParseTuple_s args s = Inr (Inr filename)" for filename
    using that by (simp add: parse_args_of [OF assms] convert_s_iff)
  have only:
    "scanner_get_comments
         (\<lambda>f p t. if same_text arg f then scan_filename f p t else None) self args s
       = scanner_get_comments scan_filename self args s"
    by (rule get_comments_scan_cong) (simp add: parsed)
  have called:
    "\<exists>filename. same_text arg filename \<and>
       scanner_get_comments
           (\<lambda>f p t. if f = filename then None else scan_filename f p t) self args s
         = Aborted ScanNoReturn"
    if "c_string arg"
  proof -
    from c_string_text [OF that] obtain filename where same: "same_text arg filename"
      by blast
    obtain p s1 where new: "PyList_New 0 s = (p, s1)"
      by (cases "PyList_New 0 s")
    have "scanner_get_comments
              (\<lambda>f p t. if f = filename then None else scan_filename f p t) self args s
            = Aborted ScanNoReturn"
      by (simp add: get_comments_parsed [OF parse_c_string [OF assms that same] new])
    with same show ?thesis
      by blast
  qed
  have result:
    "scanner_get_comments scan_filename self args s =
       Returned (Some l)
         (s2\<lparr>heap := store (heap s2) l (ob\<lparr>ob_refcnt := ob_refcnt ob + 1\<rparr>)\<rparr>)"
    if "c_string arg" "same_text arg filename" "PyList_New 0 s = (Some l, s1)"
       "scan_filename filename (Some l) s1 = Some s2" "deref (heap s2) l = Some ob"
    by (rule get_comments_completes
          [where scan_filename = scan_filename,
           OF parse_c_string [OF assms that(1,2)] that(3-5)])
  have logged:
    "\<exists>t. scanner_get_comments scan_log self' args' u = Returned (Some l') t \<and>
         world t = world u @ [(filename', Some l')]"
    if "args_of args' u = Some [arg]" "c_string arg" "same_text arg filename'"
       "PyList_New 0 u = (Some l', u1)"
  proof -
    let ?u2 = "u1\<lparr>world := world u1 @ [(filename', Some l')]\<rparr>"
    let ?ob = "\<lparr>ob_refcnt = 1, ob_val = PyList []\<rparr>"
    have scanned: "scan_log filename' (Some l') u1 = Some ?u2"
      by (simp add: scan_log_def)
    have live: "deref (heap ?u2) l' = Some ?ob"
      by (simp add: PyList_New_Some(2) [OF that(4)])
    have "world u1 = world u"
      using PyList_New_Some(3) [OF that(4)] by (simp add: alike_except_def)
    moreover have
      "scanner_get_comments scan_log self' args' u =
         Returned (Some l')
           (?u2\<lparr>heap := store (heap ?u2) l' (?ob\<lparr>ob_refcnt := ob_refcnt ?ob + 1\<rparr>)\<rparr>)"
      by (rule get_comments_completes
            [where scan_filename = scan_log,
             OF parse_c_string [OF that(1-3)] that(4) scanned live])
    ultimately show ?thesis
      by simp
  qed
  show ?thesis
    using only called result logged by blast
qed

theorem get_comments_forwards_filename_witness:
  "args_of (Some 0)
       (calling [PyStr ''dir/a b.c''] 8 [] :: (string \<times> PyObject_ptr) list pystate)
     = Some [PyStr ''dir/a b.c''] \<and>
   c_string (PyStr ''dir/a b.c'') \<and>
   same_text (PyStr ''dir/a b.c'') ''dir/a b.c'' \<and>
   scanner_get_comments scan_log None (Some 0) (calling [PyStr ''dir/a b.c''] 8 [])
     = Returned (Some 1)
         \<lparr>heap = [Some \<lparr>ob_refcnt = 1, ob_val = PyTuple [PyStr ''dir/a b.c'']\<rparr>,
                  Some \<lparr>ob_refcnt = 2, ob_val = PyList []\<rparr>],
          mem_limit = 8, world = [(''dir/a b.c'', Some 1)]\<rparr> \<and>
   (\<exists>t. scanner_get_comments scan_log None (Some 0) (calling [PyStr ''dir/a b.c''] 8 [])
          = Returned (Some 1) t \<and>
        world t = world (calling [PyStr ''dir/a b.c''] 8 []) @ [(''dir/a b.c'', Some 1)]) \<and>
   scanner_get_comments
       (\<lambda>f p t. if same_text (PyStr ''dir/a b.c'') f then scan_log f p t else None)
       None (Some 0) (calling [PyStr ''dir/a b.c''] 8 [])
     = scanner_get_comments scan_log None (Some 0) (calling [PyStr ''dir/a b.c''] 8 [])"
proof -
  let ?s = "calling [PyStr ''dir/a b.c''] 8 [] :: (string \<times> PyObject_ptr) list pystate"
  let ?s1 = "\<lparr>heap = [Some \<lparr>ob_refcnt = 1, ob_val = PyTuple [PyStr ''dir/a b.c'']\<rparr>,
                       Some \<lparr>ob_refcnt = 1, ob_val = PyList []\<rparr>],
              mem_limit = 8, world = [] :: (string \<times> PyObject_ptr) list\<rparr>"
  let ?s2 = "\<lparr>heap = [Some \<lparr>ob_refcnt = 1, ob_val = PyTuple [PyStr ''dir/a b.c'']\<rparr>,
                       Some \<lparr>ob_refcnt = 1, ob_val = PyList []\<rparr>],
              mem_limit = 8, world = [(''dir/a b.c'', Some (1::nat))]\<rparr>"
  let ?ob = "\<lparr>ob_refcnt = 1, ob_val = PyList []\<rparr>"
  have a: "args_of (Some 0) ?s = Some [PyStr ''dir/a b.c'']"
    by (simp add: args_of_def calling_def deref_def)
  have b: "c_string (PyStr ''dir/a b.c'')"
    by simp
  have c: "same_text (PyStr ''dir/a b.c'') ''dir/a b.c''"
    by simp
  have d: "PyList_New 0 ?s = (Some 1, ?s1)"
    by (simp add: PyList_New_def calling_def store_def)
  have e: "scan_log ''dir/a b.c'' (Some 1) ?s1 = Some ?s2"
    by (simp add: scan_log_def)
  have f: "deref (heap ?s2) 1 = Some ?ob"
    by (simp add: deref_def)
  note forwarded = get_comments_forwards_filename
    [where scan_filename = scan_log and self = None and s = ?s and arg = "PyStr ''dir/a b.c''"
       and filename = "''dir/a b.c''" and l = 1 and ?s1.0 = ?s1 and ?s2.0 = ?s2 and ob = ?ob
       and self' = None and args' = "Some 0" and u = ?s and filename' = "''dir/a b.c''"
       and l' = 1 and ?u1.0 = ?s1, OF a]
  from forwarded a b c d e f
  have run: "scanner_get_comments scan_log None (Some 0) ?s =
               Returned (Some 1)
                 (?s2\<lparr>heap := store (heap ?s2) 1 (?ob\<lparr>ob_refcnt := ob_refcnt ?ob + 1\<rparr>)\<rparr>)"
    by blast
  from forwarded a b c d
  have logged: "\<exists>t. scanner_get_comments scan_log None (Some 0) ?s = Returned (Some 1) t \<and>
                    world t = world ?s @ [(''dir/a b.c'', Some 1)]"
    by blast
  from forwarded
  have only: "scanner_get_comments
                  (\<lambda>f p t. if same_text (PyStr ''dir/a b.c'') f then scan_log f p t else None)
                  None (Some 0) ?s
                = scanner_get_comments scan_log None (Some 0) ?s"
    by blast
  have state: "?s2\<lparr>heap := store (heap ?s2) 1 (?ob\<lparr>ob_refcnt := ob_refcnt ?ob + 1\<rparr>)\<rparr> =
                 \<lparr>heap = [Some \<lparr>ob_refcnt = 1, ob_val = PyTuple [PyStr ''dir/a b.c'']\<rparr>,
                          Some \<lparr>ob_refcnt = 2, ob_val = PyList []\<rparr>],
                  mem_limit = 8, world = [(''dir/a b.c'', Some 1)]\<rparr>"
    by (simp add: store_def)
  show ?thesis
    using a b c run [unfolded state] logged only by blast
qed

section \<open>Two calls with the same file name\<close>

text \<open>
  C10: with the scanning routine a function \<open>f\<close> from the file name and the list it is
  given to the list it leaves, two calls with the same file name argument, in any two
  states, that both return, return lists with the same entries: those \<open>f\<close> makes of the
  file name and the empty list. Both calls do return when the argument has a C string and
  the list can be allocated in both states.
\<close>

theorem get_comments_deterministic:
  fixes s s' :: "'w pystate"
  assumes "args_of args s = Some [arg]" and "args_of args' s' = Some [arg]"
  shows "(\<forall>p t p' t'.
            scanner_get_comments (scan_by f) self args s = Returned p t \<and>
            scanner_get_comments (scan_by f) self' args' s' = Returned p' t' \<longrightarrow>
              list_at t p = list_at t' p' \<and>
              (\<exists>filename. same_text arg filename \<and> list_at t p = Some (f filename []))) \<and>
         (c_string arg \<and> fst (PyList_New 0 s) \<noteq> None \<and> fst (PyList_New 0 s') \<noteq> None \<longrightarrow>
            (\<exists>p t p' t'.
               scanner_get_comments (scan_by f) self args s = Returned p t \<and>
               scanner_get_comments (scan_by f) self' args' s' = Returned p' t'))"
proof -
  have result: "\<exists>filename. convert_s arg = Inr filename \<and> list_at t p = Some (f filename [])"
    if "args_of a u = Some [arg]" "scanner_get_comments (scan_by f) slf a u = Returned p t"
    for a slf p t and u :: "'w pystate"
  proof -
    from get_comments_Returned [OF that(2)] obtain filename l s1
      where parse: "PyArg_ParseTuple_s a u = Inr (Inr filename)"
        and new: "PyList_New 0 u = (Some l, s1)" and p: "p = Some l"
      by blast
    from get_comments_scan_by [OF parse new, of f slf] that(2) p
    have "list_at t p = Some (f filename [])"
      by auto
    moreover from parse have "convert_s arg = Inr filename"
      by (simp add: parse_args_of [OF that(1)])
    ultimately show ?thesis
      by blast
  qed
  have returns: "\<exists>p t. scanner_get_comments (scan_by f) slf a u = Returned p t"
    if "args_of a u = Some [arg]" "c_string arg" "fst (PyList_New 0 u) \<noteq> None"
    for a slf and u :: "'w pystate"
  proof -
    from c_string_text [OF that(2)] obtain filename where "same_text arg filename"
      by blast
    note parse = parse_c_string [OF that(1,2) this]
    from that(3) obtain l s1 where "PyList_New 0 u = (Some l, s1)"
      by (cases "PyList_New 0 u") auto
    from get_comments_scan_by [OF parse this, of f slf] show ?thesis
      by blast
  qed
  have equal:
    "list_at t p = list_at t' p' \<and>
     (\<exists>filename. same_text arg filename \<and> list_at t p = Some (f filename []))"
    if "scanner_get_comments (scan_by f) self args s = Returned p t"
       "scanner_get_comments (scan_by f) self' args' s' = Returned p' t'"
    for p t p' t'
  proof -
    from result [OF assms(1) that(1)] obtain filename
      where 1: "convert_s arg = Inr filename" "list_at t p = Some (f filename [])"
      by blast
    from result [OF assms(2) that(2)] obtain filename'
      where 2: "convert_s arg = Inr filename'" "list_at t' p' = Some (f filename' [])"
      by blast
    from 1(1) 2(1) have "filename' = filename"
      by simp
    with 1 2 show ?thesis
      by (auto simp: convert_s_iff)
  qed
  show ?thesis
    using equal returns [OF assms(1)] returns [OF assms(2)] by blast
qed

theorem get_comments_deterministic_witness:
  "scanner_get_comments (scan_by one_comment) None (Some 0) (calling [PyStr ''a.c''] 8 ())
     = Returned (Some 1)
         \<lparr>heap = [Some \<lparr>ob_refcnt = 1, ob_val = PyTuple [PyStr ''a.c'']\<rparr>,
                  Some \<lparr>ob_refcnt = 2, ob_val = PyList [PyStr ''/* a.c */'']\<rparr>],
          mem_limit = 8, world = ()\<rparr> \<and>
   scanner_get_comments (scan_by one_comment) None (Some 0)
       \<lparr>heap = [Some \<lparr>ob_refcnt = 1, ob_val = PyTuple [PyStr ''a.c'']\<rparr>,
                Some \<lparr>ob_refcnt = 2, ob_val = PyList [PyStr ''/* a.c */'']\<rparr>],
        mem_limit = 8, world = ()\<rparr>
     = Returned (Some 2)
         \<lparr>heap = [Some \<lparr>ob_refcnt = 1, ob_val = PyTuple [PyStr ''a.c'']\<rparr>,
                  Some \<lparr>ob_refcnt = 2, ob_val = PyList [PyStr ''/* a.c */'']\<rparr>,
                  Some \<lparr>ob_refcnt = 2, ob_val = PyList [PyStr ''/* a.c */'']\<rparr>],
          mem_limit = 8, world = ()\<rparr> \<and>
   list_at
       \<lparr>heap = [Some \<lparr>ob_refcnt = 1, ob_val = PyTuple [PyStr ''a.c'']\<rparr>,
                Some \<lparr>ob_refcnt = 2, ob_val = PyList [PyStr ''/* a.c */'']\<rparr>],
        mem_limit = 8, world = ()\<rparr> (Some 1)
     = list_at
         \<lparr>heap = [Some \<lparr>ob_refcnt = 1, ob_val = PyTuple [PyStr ''a.c'']\<rparr>,
                  Some \<lparr>ob_refcnt = 2, ob_val = PyList [PyStr ''/* a.c */'']\<rparr>,
                  Some \<lparr>ob_refcnt = 2, ob_val = PyList [PyStr ''/* a.c */'']\<rparr>],
          mem_limit = 8, world = ()\<rparr> (Some 2)"
proof -
  let ?s = "calling [PyStr ''a.c''] 8 () :: unit pystate"
  let ?t = "\<lparr>heap = [Some \<lparr>ob_refcnt = 1, ob_val = PyTuple [PyStr ''a.c'']\<rparr>,
                      Some \<lparr>ob_refcnt = 2, ob_val = PyList [PyStr ''/* a.c */'']\<rparr>],
             mem_limit = 8, world = ()\<rparr>"
  let ?t' = "\<lparr>heap = [Some \<lparr>ob_refcnt = 1, ob_val = PyTuple [PyStr ''a.c'']\<rparr>,
                       Some \<lparr>ob_refcnt = 2, ob_val = PyList [PyStr ''/* a.c */'']\<rparr>,
                       Some \<lparr>ob_refcnt = 2, ob_val = PyList [PyStr ''/* a.c */'']\<rparr>],
              mem_limit = 8, world = ()\<rparr>"
  have a: "args_of (Some 0) ?s = Some [PyStr ''a.c'']"
    by (simp add: args_of_def calling_def deref_def)
  have a': "args_of (Some 0) ?t = Some [PyStr ''a.c'']"
    by (simp add: args_of_def deref_def)
  have run: "scanner_get_comments (scan_by one_comment) None (Some 0) ?s = Returned (Some 1) ?t"
    by (simp add: scanner_get_comments_def PyArg_ParseTuple_s_def calling_def deref_def
          convert_s_def strlen_def PyList_New_def store_def scan_by_def one_comment_def
          Py_INCREF_def)
  have run': "scanner_get_comments (scan_by one_comment) None (Some 0) ?t = Returned (Some 2) ?t'"
    by (simp add: scanner_get_comments_def PyArg_ParseTuple_s_def deref_def
          convert_s_def strlen_def PyList_New_def store_def scan_by_def one_comment_def
          Py_INCREF_def)
  from get_comments_deterministic [OF a a', of one_comment None None] run run'
  have "list_at ?t (Some 1) = list_at ?t' (Some 2)"
    by blast
  with run run' show ?thesis
    by blast
qed

end
